theory Spec2Isabelle
  imports Main
begin

section \<open>Python string operations used by the handlers\<close>

text \<open>
  A Python \<open>str\<close> is a \<^typ>\<open>string\<close> whose characters stand for the code points below 256.
  In that range the characters that \<open>str.strip()\<close> removes are the code points
  9 to 13, 28 to 31, 32, 133 and 160, and the decimal digits are \<open>0\<close> to \<open>9\<close>.
\<close>

definition isspace :: "char \<Rightarrow> bool" where
  "isspace c = ((of_char c :: nat) \<in> {9, 10, 11, 12, 13, 28, 29, 30, 31, 32, 133, 160})"

text \<open>\<open>s.strip()\<close>: leading and trailing whitespace removed.\<close>

definition str_strip :: "string \<Rightarrow> string" where
  "str_strip s = rev (dropWhile isspace (rev (dropWhile isspace s)))"

text \<open>
  \<open>s.split(sep)\<close> for a separator of one character: the pieces between the separators, so
  that the empty string splits into one empty piece and the result is never empty.
\<close>

fun str_split :: "char \<Rightarrow> string \<Rightarrow> string list" where
  "str_split sep [] = [[]]"
| "str_split sep (c # cs) =
     (if c = sep then [] # str_split sep cs
      else (case str_split sep cs of
              [] \<Rightarrow> [[c]]
            | l # ls \<Rightarrow> (c # l) # ls))"

text \<open>
  \<open>int(s)\<close> on a \<open>str\<close>, base 10; \<open>None\<close> stands for the \<open>ValueError\<close>. The
  accepted form is: whitespace, an optional sign, decimal digits with single underscores
  allowed between two digits, whitespace. The whitespace that \<open>int\<close> skips is narrower than
  that of \<open>strip\<close>: the code points 28 to 31 are not skipped. Interpreters with a limit on
  the number of digits (\<open>sys.int_max_str_digits\<close>, where 0 switches the limit off) raise
  \<open>ValueError\<close> beyond the limit, which never applies to 640 digits or fewer.
\<close>

definition int_space :: "char \<Rightarrow> bool" where
  "int_space c = ((of_char c :: nat) \<in> {9, 10, 11, 12, 13, 32, 133, 160})"

definition is_digit :: "char \<Rightarrow> bool" where
  "is_digit c = (48 \<le> (of_char c :: nat) \<and> (of_char c :: nat) \<le> 57)"

definition digit_value :: "char \<Rightarrow> nat" where
  "digit_value c = of_char c - 48"

definition digit_or_underscore :: "char \<Rightarrow> bool" where
  "digit_or_underscore c = (if is_digit c then True else c = CHR ''_'')"

fun double_underscore :: "string \<Rightarrow> bool" where
  "double_underscore (a # b # cs) =
     (if a = CHR ''_'' \<and> b = CHR ''_'' then True else double_underscore (b # cs))"
| "double_underscore cs = False"

definition digits_over_limit :: "nat \<Rightarrow> nat \<Rightarrow> bool" where
  "digits_over_limit max_digits n = (0 < max_digits \<and> max_digits < n \<and> 640 < n)"

definition py_int :: "nat \<Rightarrow> string \<Rightarrow> int option" where
  "py_int max_digits s =
     (let s1 = dropWhile int_space s;
          negative = (case s1 of [] \<Rightarrow> False | c # cs \<Rightarrow> c = CHR ''-'');
          s2 = (case s1 of
                  [] \<Rightarrow> []
                | c # cs \<Rightarrow> if c = CHR ''+'' then cs else if c = CHR ''-'' then cs else s1);
          body = takeWhile digit_or_underscore s2;
          rest = dropWhile int_space (dropWhile digit_or_underscore s2);
          ds = filter is_digit body;
          magnitude = int (foldl (\<lambda>n c. 10 * n + digit_value c) 0 ds)
      in if body = [] then None
         else if hd body = CHR ''_'' then None
         else if last body = CHR ''_'' then None
         else if double_underscore body then None
         else if digits_over_limit max_digits (length ds) then None
         else if rest = [] then Some (if negative then - magnitude else magnitude)
         else None)"

text \<open>\<open>str(n)\<close> for an integer: its decimal digits, with a minus sign when negative.\<close>

function str_nat :: "nat \<Rightarrow> string" where
  "str_nat n =
     (if n < 10 then [''0123456789'' ! n]
      else str_nat (n div 10) @ [''0123456789'' ! (n mod 10)])"
  by pat_completeness auto
termination
  by (relation "measure id") auto

definition str_int :: "int \<Rightarrow> string" where
  "str_int i = (if i < 0 then CHR ''-'' # str_nat (nat (- i)) else str_nat (nat i))"


section \<open>Data model\<close>

text \<open>
  The request body. \<open>format\<close> and \<open>quality\<close> are declared \<open>Optional[str]\<close>, so a request
  may carry \<open>None\<close> in either. The field \<open>url\<close> of the request is named \<open>request_url\<close>
  here, to keep it apart from the field \<open>url\<close> of the response.
\<close>

record ExtractRequest =
  request_url :: string
  format :: "string option"
  quality :: "string option"

record ExtractResponse =
  success :: bool
  url :: "string option"
  title :: "string option"
  duration :: "int option"
  error :: "string option"

text \<open>The values of the dictionary that \<open>/info\<close> returns: \<open>True\<close> and strings.\<close>

datatype py_value = PyBool bool | PyStr string

type_synonym py_dict = "(string \<times> py_value) list"

text \<open>
  What \<open>subprocess.run\<close> returns with \<open>capture_output=True, text=True\<close>: the exit status
  (negative when a signal ended the process) and both streams as text.
\<close>

record CompletedProcess =
  returncode :: int
  stdout :: string
  stderr :: string

text \<open>
  The exceptions that reach the handlers' \<open>except\<close> clauses. \<open>HTTPException\<close> carries its
  status code and detail; it is a subclass of \<open>Exception\<close>, as \<open>TimeoutExpired\<close> is.
  \<open>TimeoutExpired\<close> and every other exception carry the text that \<open>str\<close> gives for them.
\<close>

datatype exn =
    HTTPException int string
  | TimeoutExpired string
  | OtherException string

datatype log_record = INFO string | WARNING string | ERROR string

text \<open>
  What the handlers take from their surroundings: \<open>subprocess.run\<close> on an argument list
  with a timeout in seconds, which returns a completed process or raises; the text that
  \<open>str\<close> gives for an \<open>HTTPException\<close> with a status code and a detail, which the web
  framework defines; and the interpreter's limit on the digits of an integer string.
\<close>

record runtime =
  subprocess_run :: "string option list \<Rightarrow> nat \<Rightarrow> exn + CompletedProcess"
  http_exception_str :: "int \<Rightarrow> string \<Rightarrow> string"
  int_max_str_digits :: nat

fun exn_str :: "runtime \<Rightarrow> exn \<Rightarrow> string" where
  "exn_str rt (HTTPException status_code detail) = http_exception_str rt status_code detail"
| "exn_str rt (TimeoutExpired m) = m"
| "exn_str rt (OtherException m) = m"


section \<open>The handlers\<close>

text \<open>
  Both handlers read the output of the process in the same way: \<open>result.stdout\<close> is
  stripped as a whole, then split at the newline characters.
\<close>

definition stdout_lines :: "CompletedProcess \<Rightarrow> string list" where
  "stdout_lines result = str_split (CHR 0x0A) (str_strip (stdout result))"

definition user_agent :: string where
  "user_agent = ''Mozilla/5.0 (Windows NT 10.0; Win64; x64) AppleWebKit/537.36 (KHTML, like Gecko) Chrome/120.0.0.0 Safari/537.36''"

subsection \<open>\<open>POST /extract\<close>\<close>

definition extract_audio_cmd :: "ExtractRequest \<Rightarrow> string option list" where
  "extract_audio_cmd request =
     [Some ''yt-dlp'',
      Some ''--no-playlist'',
      Some ''--extract-audio'',
      Some ''--audio-format'', Some ''mp3'',
      Some ''--audio-quality'', Some ''0'',
      Some ''--format'', format request,
      Some ''--no-warnings'',
      Some ''--quiet'',
      Some ''--print'', Some ''url'',
      Some ''--print'', Some ''title'',
      Some ''--print'', Some ''duration'',
      Some ''--user-agent'', Some user_agent,
      Some (request_url request)]"

text \<open>
  The body of the \<open>try\<close> statement: the records logged so far, and either the exception
  that leaves the body or the response it returns.
\<close>

definition extract_audio_try ::
  "runtime \<Rightarrow> ExtractRequest \<Rightarrow> log_record list \<times> (exn + ExtractResponse)" where
  "extract_audio_try rt request =
     (let logged = [INFO (''Extracting audio from: '' @ request_url request)] in
      case subprocess_run rt (extract_audio_cmd request) 60 of
        Inl e \<Rightarrow> (logged, Inl e)
      | Inr result \<Rightarrow>
          if returncode result \<noteq> 0 then
            (logged @ [ERROR (''yt-dlp failed: '' @ stderr result)],
             Inl (HTTPException 400 (''YouTube extraction failed: '' @ stderr result)))
          else
            let output_lines = stdout_lines result in
            if length output_lines < 3 then
              (logged, Inl (HTTPException 400 ''Invalid output from yt-dlp''))
            else
              let audio_url = str_strip (output_lines ! 0);
                  title = str_strip (output_lines ! 1);
                  duration_str = str_strip (output_lines ! 2);
                  duration = py_int (int_max_str_digits rt) duration_str;
                  warned = (case duration of
                              Some n \<Rightarrow> logged
                            | None \<Rightarrow>
                                logged @ [WARNING (''Could not parse duration: '' @ duration_str)])
              in (warned @ [INFO (''Successfully extracted: '' @ title)],
                  Inr \<lparr>success = True, url = Some audio_url, title = Some title,
                       duration = duration, error = None\<rparr>))"

text \<open>
  The handler: the \<open>try\<close> body under its two \<open>except\<close> clauses. The first takes
  \<open>TimeoutExpired\<close>; the second, \<open>except Exception\<close>, takes every other exception that
  leaves the body, an \<open>HTTPException\<close> raised in the body included.
\<close>

definition extract_audio ::
  "runtime \<Rightarrow> ExtractRequest \<Rightarrow> log_record list \<times> (exn + ExtractResponse)" where
  "extract_audio rt request =
     (case extract_audio_try rt request of
        (logged, Inr response) \<Rightarrow> (logged, Inr response)
      | (logged, Inl (TimeoutExpired m)) \<Rightarrow>
          (logged @ [ERROR ''yt-dlp command timed out''],
           Inl (HTTPException 408 ''Request timed out. YouTube may be blocking the request.''))
      | (logged, Inl e) \<Rightarrow>
          (logged @ [ERROR (''Unexpected error: '' @ exn_str rt e)],
           Inl (HTTPException 500 (''Internal server error: '' @ exn_str rt e))))"

subsection \<open>\<open>POST /info\<close>\<close>

definition get_video_info_cmd :: "ExtractRequest \<Rightarrow> string option list" where
  "get_video_info_cmd request =
     [Some ''yt-dlp'',
      Some ''--no-playlist'',
      Some ''--no-warnings'',
      Some ''--quiet'',
      Some ''--print'', Some ''title'',
      Some ''--print'', Some ''duration'',
      Some ''--print'', Some ''uploader'',
      Some ''--print'', Some ''view_count'',
      Some ''--user-agent'', Some user_agent,
      Some (request_url request)]"

definition get_video_info_try ::
  "runtime \<Rightarrow> ExtractRequest \<Rightarrow> log_record list \<times> (exn + py_dict)" where
  "get_video_info_try rt request =
     (let logged = [INFO (''Getting info for: '' @ request_url request)] in
      case subprocess_run rt (get_video_info_cmd request) 30 of
        Inl e \<Rightarrow> (logged, Inl e)
      | Inr result \<Rightarrow>
          if returncode result \<noteq> 0 then
            (logged, Inl (HTTPException 400 (''Failed to get video info: '' @ stderr result)))
          else
            let output_lines = stdout_lines result in
            if length output_lines < 4 then
              (logged, Inl (HTTPException 400 ''Invalid output from yt-dlp''))
            else
              (logged,
               Inr [(''success'', PyBool True),
                    (''title'', PyStr (str_strip (output_lines ! 0))),
                    (''duration'', PyStr (str_strip (output_lines ! 1))),
                    (''uploader'', PyStr (str_strip (output_lines ! 2))),
                    (''view_count'', PyStr (str_strip (output_lines ! 3)))]))"

definition get_video_info ::
  "runtime \<Rightarrow> ExtractRequest \<Rightarrow> log_record list \<times> (exn + py_dict)" where
  "get_video_info rt request =
     (case get_video_info_try rt request of
        (logged, Inr response) \<Rightarrow> (logged, Inr response)
      | (logged, Inl e) \<Rightarrow>
          (logged @ [ERROR (''Error getting video info: '' @ exn_str rt e)],
           Inl (HTTPException 500 (''Internal server error: '' @ exn_str rt e))))"


section \<open>Example runtimes, requests and process results\<close>

text \<open>
  \<open>str\<close> of an \<open>HTTPException\<close> as the web framework's recent releases define it: the
  status code, a colon and the detail.
\<close>

definition starlette_str :: "int \<Rightarrow> string \<Rightarrow> string" where
  "starlette_str status_code detail = str_int status_code @ '': '' @ detail"

text \<open>
  A runtime whose external process needs \<open>seconds\<close> seconds and then completes with
  \<open>result\<close>: \<open>subprocess.run\<close> raises \<open>TimeoutExpired\<close> under a shorter timeout.
\<close>

definition process_taking :: "nat \<Rightarrow> CompletedProcess \<Rightarrow> runtime" where
  "process_taking seconds result =
     \<lparr>subprocess_run =
        (\<lambda>cmd timeout.
           if timeout < seconds
           then Inl (TimeoutExpired (''timed out after '' @ str_nat timeout @ '' seconds''))
           else Inr result),
      http_exception_str = starlette_str,
      int_max_str_digits = 4300\<rparr>"

definition example_request :: ExtractRequest where
  "example_request =
     \<lparr>request_url = ''https://www.youtube.com/watch?v=abc'',
      format = Some ''bestaudio'', quality = Some ''best''\<rparr>"

definition song_result :: CompletedProcess where
  "song_result =
     \<lparr>returncode = 0,
      stdout = ''http://media/1'' @ [CHR 0x0A] @ ''Song Title'' @ [CHR 0x0A] @ ''213'' @ [CHR 0x0A],
      stderr = []\<rparr>"


definition info_result :: CompletedProcess where
  "info_result =
     \<lparr>returncode = 0,
      stdout = ''Song Title'' @ [CHR 0x0A] @ ''213'' @ [CHR 0x0A] @ ''Some Channel''
                 @ [CHR 0x0A] @ ''1000'' @ [CHR 0x0A],
      stderr = []\<rparr>"

definition failed_result :: CompletedProcess where
  "failed_result =
     \<lparr>returncode = 1, stdout = [], stderr = ''ERROR: Video unavailable''\<rparr>"

definition short_result :: CompletedProcess where
  "short_result =
     \<lparr>returncode = 0,
      stdout = ''http://media/1'' @ [CHR 0x0A] @ ''Song Title'' @ [CHR 0x0A],
      stderr = []\<rparr>"

definition longer_result :: CompletedProcess where
  "longer_result =
     \<lparr>returncode = 0,
      stdout = ''Song Title'' @ [CHR 0x0A] @ ''213'' @ [CHR 0x0A] @ ''Some Channel''
                 @ [CHR 0x0A] @ ''1000'' @ [CHR 0x0A] @ ''one more line'' @ [CHR 0x0A],
      stderr = ''warning''\<rparr>"

definition extra_result :: CompletedProcess where
  "extra_result =
     \<lparr>returncode = 0,
      stdout = ''http://media/1'' @ [CHR 0x0A] @ ''Song Title'' @ [CHR 0x0A] @ ''213'' @ [CHR 0x0A]
                 @ ''one more line'' @ [CHR 0x0A],
      stderr = ''warning''\<rparr>"

definition padded_result :: CompletedProcess where
  "padded_result =
     \<lparr>returncode = 0,
      stdout = [CHR 0x0A] @ ''  http://media/1 '' @ [CHR 0x0A] @ '' Song Title'' @ [CHR 0x09, CHR 0x0A]
                 @ '' 213 '' @ [CHR 0x0A] @ ''  '' @ [CHR 0x0A],
      stderr = []\<rparr>"

definition padded_info_result :: CompletedProcess where
  "padded_info_result =
     \<lparr>returncode = 0,
      stdout = ''  Song Title '' @ [CHR 0x0A] @ '' 213'' @ [CHR 0x09, CHR 0x0A] @ ''Some Channel ''
                 @ [CHR 0x0A] @ '' 1000 '' @ [CHR 0x0A, CHR 0x0A],
      stderr = []\<rparr>"

definition other_request :: ExtractRequest where
  "other_request =
     \<lparr>request_url = ''https://www.youtube.com/watch?v=abc'',
      format = Some ''bestaudio'', quality = Some ''worst''\<rparr>"


section \<open>The steps of the handlers\<close>

text \<open>What leaves the \<open>try\<close> body of each handler, case by case.\<close>

lemma extract_audio_try_raises:
  "subprocess_run rt (extract_audio_cmd request) 60 = Inl e \<Longrightarrow>
   snd (extract_audio_try rt request) = Inl e"
  by (simp add: extract_audio_try_def)

lemma extract_audio_try_nonzero:
  "subprocess_run rt (extract_audio_cmd request) 60 = Inr result \<Longrightarrow> returncode result \<noteq> 0 \<Longrightarrow>
   snd (extract_audio_try rt request) =
     Inl (HTTPException 400 (''YouTube extraction failed: '' @ stderr result))"
  by (simp add: extract_audio_try_def)

lemma extract_audio_try_short:
  "subprocess_run rt (extract_audio_cmd request) 60 = Inr result \<Longrightarrow> returncode result = 0 \<Longrightarrow>
   length (stdout_lines result) < 3 \<Longrightarrow>
   snd (extract_audio_try rt request) = Inl (HTTPException 400 ''Invalid output from yt-dlp'')"
  by (simp add: extract_audio_try_def)

lemma extract_audio_try_success:
  "subprocess_run rt (extract_audio_cmd request) 60 = Inr result \<Longrightarrow> returncode result = 0 \<Longrightarrow>
   3 \<le> length (stdout_lines result) \<Longrightarrow>
   snd (extract_audio_try rt request) =
     Inr \<lparr>success = True,
          url = Some (str_strip (stdout_lines result ! 0)),
          title = Some (str_strip (stdout_lines result ! 1)),
          duration = py_int (int_max_str_digits rt) (str_strip (stdout_lines result ! 2)),
          error = None\<rparr>"
  by (simp add: extract_audio_try_def Let_def)

lemma extract_audio_except:
  "snd (extract_audio rt request) =
     (case snd (extract_audio_try rt request) of
        Inr response \<Rightarrow> Inr response
      | Inl (TimeoutExpired m) \<Rightarrow>
          Inl (HTTPException 408 ''Request timed out. YouTube may be blocking the request.'')
      | Inl e \<Rightarrow> Inl (HTTPException 500 (''Internal server error: '' @ exn_str rt e)))"
  by (simp add: extract_audio_def split: prod.splits sum.splits exn.splits)

lemma get_video_info_try_raises:
  "subprocess_run rt (get_video_info_cmd request) 30 = Inl e \<Longrightarrow>
   snd (get_video_info_try rt request) = Inl e"
  by (simp add: get_video_info_try_def)

lemma get_video_info_try_nonzero:
  "subprocess_run rt (get_video_info_cmd request) 30 = Inr result \<Longrightarrow> returncode result \<noteq> 0 \<Longrightarrow>
   snd (get_video_info_try rt request) =
     Inl (HTTPException 400 (''Failed to get video info: '' @ stderr result))"
  by (simp add: get_video_info_try_def)

lemma get_video_info_try_short:
  "subprocess_run rt (get_video_info_cmd request) 30 = Inr result \<Longrightarrow> returncode result = 0 \<Longrightarrow>
   length (stdout_lines result) < 4 \<Longrightarrow>
   snd (get_video_info_try rt request) = Inl (HTTPException 400 ''Invalid output from yt-dlp'')"
  by (simp add: get_video_info_try_def)

lemma get_video_info_try_success:
  "subprocess_run rt (get_video_info_cmd request) 30 = Inr result \<Longrightarrow> returncode result = 0 \<Longrightarrow>
   4 \<le> length (stdout_lines result) \<Longrightarrow>
   snd (get_video_info_try rt request) =
     Inr [(''success'', PyBool True),
          (''title'', PyStr (str_strip (stdout_lines result ! 0))),
          (''duration'', PyStr (str_strip (stdout_lines result ! 1))),
          (''uploader'', PyStr (str_strip (stdout_lines result ! 2))),
          (''view_count'', PyStr (str_strip (stdout_lines result ! 3)))]"
  by (simp add: get_video_info_try_def Let_def)

lemma get_video_info_except:
  "snd (get_video_info rt request) =
     (case snd (get_video_info_try rt request) of
        Inr response \<Rightarrow> Inr response
      | Inl e \<Rightarrow> Inl (HTTPException 500 (''Internal server error: '' @ exn_str rt e)))"
  by (simp add: get_video_info_def split: prod.splits sum.splits)

section \<open>Evaluating the examples\<close>

lemmas string_defs =
  stdout_lines_def str_strip_def isspace_def py_int_def int_space_def is_digit_def
  digit_or_underscore_def digit_value_def digits_over_limit_def Let_def

lemma py_int_213: "py_int max_digits ''213'' = Some 213"
  by (simp add: string_defs)


lemma stdout_lines_song: "stdout_lines song_result = [''http://media/1'', ''Song Title'', ''213'']"
  by (simp add: string_defs song_result_def)


lemma stdout_lines_info:
  "stdout_lines info_result = [''Song Title'', ''213'', ''Some Channel'', ''1000'']"
  by (simp add: string_defs info_result_def)

lemma str_strip_examples:
  "str_strip ''http://media/1'' = ''http://media/1''"
  "str_strip ''Song Title'' = ''Song Title''"
  "str_strip ''213'' = ''213''"
  "str_strip ''N/A'' = ''N/A''"
  "str_strip ''Some Channel'' = ''Some Channel''"
  "str_strip ''1000'' = ''1000''"
  by (simp_all add: str_strip_def isspace_def)


section \<open>The success path of \<open>/extract\<close>\<close>






section \<open>Timeouts\<close>

text \<open>
  Claim C5. When \<open>subprocess.run\<close>, called by \<open>/extract\<close> with a timeout of 60 seconds,
  raises \<open>TimeoutExpired\<close>, the handler raises an \<open>HTTPException\<close> with status 408, not
  the status 500 of its general clause, and with a detail saying that YouTube may be
  blocking the request.
\<close>

theorem extract_timeout_is_408:
  assumes "subprocess_run rt (extract_audio_cmd request) 60 = Inl (TimeoutExpired m)"
  shows "snd (extract_audio rt request) =
           Inl (HTTPException 408 ''Request timed out. YouTube may be blocking the request.'')"
  using extract_audio_try_raises [OF assms] by (simp add: extract_audio_except)

theorem extract_timeout_is_408_witness:
  "subprocess_run (process_taking 90 song_result) (extract_audio_cmd example_request) 60 =
     Inl (TimeoutExpired ''timed out after 60 seconds'')
   \<and> snd (extract_audio (process_taking 90 song_result) example_request) =
       Inl (HTTPException 408 ''Request timed out. YouTube may be blocking the request.'')"
proof -
  have h: "subprocess_run (process_taking 90 song_result) (extract_audio_cmd example_request) 60 =
             Inl (TimeoutExpired ''timed out after 60 seconds'')"
    by (simp add: process_taking_def)
  show ?thesis using h extract_timeout_is_408 [OF h] by simp
qed

text \<open>
  Claim C6. \<open>/info\<close> calls \<open>subprocess.run\<close> with a timeout of 30 seconds, and has no
  clause of its own for \<open>TimeoutExpired\<close>: a timeout leaves the handler as any other
  exception does, an \<open>HTTPException\<close> with status 500 whose detail is
  \<open>Internal server error:\<close> followed by the text of the exception.
\<close>

theorem info_timeout_is_500:
  "(subprocess_run rt (get_video_info_cmd request) 30 = Inl (TimeoutExpired m) \<longrightarrow>
      snd (get_video_info rt request) =
        Inl (HTTPException 500 (''Internal server error: '' @ m)))
   \<and> (subprocess_run rt (get_video_info_cmd request) 30 = Inl e \<longrightarrow>
      snd (get_video_info rt request) =
        Inl (HTTPException 500 (''Internal server error: '' @ exn_str rt e)))"
  by (auto simp: get_video_info_except dest: get_video_info_try_raises)

theorem info_timeout_is_500_witness:
  "subprocess_run (process_taking 45 info_result) (get_video_info_cmd example_request) 30 =
     Inl (TimeoutExpired ''timed out after 30 seconds'')
   \<and> snd (get_video_info (process_taking 45 info_result) example_request) =
       Inl (HTTPException 500 ''Internal server error: timed out after 30 seconds'')"
proof -
  have h: "subprocess_run (process_taking 45 info_result) (get_video_info_cmd example_request) 30 =
             Inl (TimeoutExpired ''timed out after 30 seconds'')"
    by (simp add: process_taking_def)
  show ?thesis
    using h info_timeout_is_500 [of "process_taking 45 info_result" example_request
        "''timed out after 30 seconds''" "TimeoutExpired ''timed out after 30 seconds''"]
    by simp
qed

section \<open>The success path of \<open>/info\<close>\<close>




section \<open>A process that exits with a non-zero status\<close>

text \<open>
  Claim C1 says that a non-zero exit status gives an error with status 400 whose message
  holds the error output of the process. Both handlers raise that \<open>HTTPException\<close> with
  status 400 inside their \<open>try\<close> body, where the clause \<open>except Exception\<close> takes it and
  raises another one in its place: what leaves the handler has status 500, and its detail
  is \<open>Internal server error:\<close> followed by the text that \<open>str\<close> gives for the exception
  with status 400.
\<close>

theorem nonzero_exit_is_reported_as_500:
  "(subprocess_run rt (extract_audio_cmd request) 60 = Inr result \<and> returncode result \<noteq> 0 \<longrightarrow>
      snd (extract_audio rt request) =
        Inl (HTTPException 500
              (''Internal server error: ''
                 @ http_exception_str rt 400 (''YouTube extraction failed: '' @ stderr result))))
   \<and> (subprocess_run rt (get_video_info_cmd request) 30 = Inr result \<and> returncode result \<noteq> 0 \<longrightarrow>
      snd (get_video_info rt request) =
        Inl (HTTPException 500
              (''Internal server error: ''
                 @ http_exception_str rt 400 (''Failed to get video info: '' @ stderr result))))"
proof (intro conjI impI)
  assume "subprocess_run rt (extract_audio_cmd request) 60 = Inr result \<and> returncode result \<noteq> 0"
  then have "snd (extract_audio_try rt request) =
               Inl (HTTPException 400 (''YouTube extraction failed: '' @ stderr result))"
    by (simp add: extract_audio_try_nonzero)
  then show "snd (extract_audio rt request) =
        Inl (HTTPException 500
              (''Internal server error: ''
                 @ http_exception_str rt 400 (''YouTube extraction failed: '' @ stderr result)))"
    by (simp add: extract_audio_except)
next
  assume "subprocess_run rt (get_video_info_cmd request) 30 = Inr result \<and> returncode result \<noteq> 0"
  then have "snd (get_video_info_try rt request) =
               Inl (HTTPException 400 (''Failed to get video info: '' @ stderr result))"
    by (simp add: get_video_info_try_nonzero)
  then show "snd (get_video_info rt request) =
        Inl (HTTPException 500
              (''Internal server error: ''
                 @ http_exception_str rt 400 (''Failed to get video info: '' @ stderr result)))"
    by (simp add: get_video_info_except)
qed

theorem nonzero_exit_is_reported_as_500_witness:
  "subprocess_run (process_taking 2 failed_result) (extract_audio_cmd example_request) 60 =
     Inr failed_result
   \<and> subprocess_run (process_taking 2 failed_result) (get_video_info_cmd example_request) 30 =
     Inr failed_result
   \<and> returncode failed_result \<noteq> 0
   \<and> snd (extract_audio (process_taking 2 failed_result) example_request) =
       Inl (HTTPException 500
             ''Internal server error: 400: YouTube extraction failed: ERROR: Video unavailable'')
   \<and> snd (get_video_info (process_taking 2 failed_result) example_request) =
       Inl (HTTPException 500
             ''Internal server error: 400: Failed to get video info: ERROR: Video unavailable'')"
proof -
  have h1: "subprocess_run (process_taking 2 failed_result) (extract_audio_cmd example_request) 60 =
              Inr failed_result"
    by (simp add: process_taking_def)
  have h2: "subprocess_run (process_taking 2 failed_result) (get_video_info_cmd example_request) 30 =
              Inr failed_result"
    by (simp add: process_taking_def)
  have h3: "returncode failed_result \<noteq> 0"
    by (simp add: failed_result_def)
  have s: "http_exception_str (process_taking 2 failed_result) 400 d = ''400: '' @ d" for d
    by (simp add: process_taking_def starlette_str_def str_int_def)
  have e: "stderr failed_result = ''ERROR: Video unavailable''"
    by (simp add: failed_result_def)
  have "snd (extract_audio (process_taking 2 failed_result) example_request) =
       Inl (HTTPException 500
             ''Internal server error: 400: YouTube extraction failed: ERROR: Video unavailable'')
   \<and> snd (get_video_info (process_taking 2 failed_result) example_request) =
       Inl (HTTPException 500
             ''Internal server error: 400: Failed to get video info: ERROR: Video unavailable'')"
    using nonzero_exit_is_reported_as_500
            [of "process_taking 2 failed_result" example_request failed_result] h1 h2 h3
    by (simp add: s e)
  with h1 h2 h3 show ?thesis by blast
qed

section \<open>Output with too few lines\<close>

lemma stdout_lines_failed: "stdout_lines failed_result = [[]]"
  by (simp add: string_defs failed_result_def)

lemma stdout_lines_short: "stdout_lines short_result = [''http://media/1'', ''Song Title'']"
  by (simp add: string_defs short_result_def)

text \<open>
  Claim C4 says that output with too few lines gives the error about invalid output
  whatever the exit status. The handlers look at the exit status first: for a process
  that exits with status 1 and prints nothing, so that the output has one empty line,
  the exception raised in the \<open>try\<close> body is the one about the failed process, and no
  error about invalid output is raised.
\<close>

theorem invalid_output_counterexample:
  "returncode failed_result = 1
   \<and> length (stdout_lines failed_result) = 1
   \<and> snd (extract_audio_try (process_taking 2 failed_result) example_request) =
       Inl (HTTPException 400 ''YouTube extraction failed: ERROR: Video unavailable'')
   \<and> snd (extract_audio (process_taking 2 failed_result) example_request) =
       Inl (HTTPException 500
             ''Internal server error: 400: YouTube extraction failed: ERROR: Video unavailable'')
   \<and> snd (get_video_info_try (process_taking 2 failed_result) example_request) =
       Inl (HTTPException 400 ''Failed to get video info: ERROR: Video unavailable'')
   \<and> snd (get_video_info (process_taking 2 failed_result) example_request) =
       Inl (HTTPException 500
             ''Internal server error: 400: Failed to get video info: ERROR: Video unavailable'')
   \<and> snd (extract_audio_try (process_taking 2 failed_result) example_request) \<noteq>
       Inl (HTTPException 400 ''Invalid output from yt-dlp'')
   \<and> snd (get_video_info_try (process_taking 2 failed_result) example_request) \<noteq>
       Inl (HTTPException 400 ''Invalid output from yt-dlp'')"
proof -
  have r: "subprocess_run (process_taking 2 failed_result) cmd 60 = Inr failed_result"
          "subprocess_run (process_taking 2 failed_result) cmd 30 = Inr failed_result" for cmd
    by (simp_all add: process_taking_def)
  have n: "returncode failed_result = 1" "stderr failed_result = ''ERROR: Video unavailable''"
    by (simp_all add: failed_result_def)
  have s: "http_exception_str (process_taking 2 failed_result) 400 d = ''400: '' @ d" for d
    by (simp add: process_taking_def starlette_str_def str_int_def)
  have e: "snd (extract_audio_try (process_taking 2 failed_result) example_request) =
       Inl (HTTPException 400 ''YouTube extraction failed: ERROR: Video unavailable'')"
    using extract_audio_try_nonzero [OF r(1), of example_request] by (simp add: n)
  have i: "snd (get_video_info_try (process_taking 2 failed_result) example_request) =
       Inl (HTTPException 400 ''Failed to get video info: ERROR: Video unavailable'')"
    using get_video_info_try_nonzero [OF r(2), of example_request] by (simp add: n)
  show ?thesis
    by (simp add: n stdout_lines_failed e i extract_audio_except get_video_info_except s)
qed

text \<open>
  Claim C4, amended. When the process exits with status zero and its output has fewer
  than three lines (\<open>/extract\<close>) or fewer than four lines (\<open>/info\<close>), the \<open>try\<close> body
  of the handler raises the \<open>HTTPException\<close> with status 400 and the detail
  \<open>Invalid output from yt-dlp\<close>, and the handler ends with an exception, not with a
  response.
\<close>

theorem invalid_output_on_zero_exit:
  "(subprocess_run rt (extract_audio_cmd request) 60 = Inr result \<and> returncode result = 0
      \<and> length (stdout_lines result) < 3 \<longrightarrow>
    snd (extract_audio_try rt request) = Inl (HTTPException 400 ''Invalid output from yt-dlp'')
    \<and> isl (snd (extract_audio rt request)))
   \<and> (subprocess_run rt (get_video_info_cmd request) 30 = Inr result \<and> returncode result = 0
      \<and> length (stdout_lines result) < 4 \<longrightarrow>
    snd (get_video_info_try rt request) = Inl (HTTPException 400 ''Invalid output from yt-dlp'')
    \<and> isl (snd (get_video_info rt request)))"
  by (auto simp: extract_audio_try_short get_video_info_try_short extract_audio_except
      get_video_info_except)

theorem invalid_output_on_zero_exit_witness:
  "subprocess_run (process_taking 2 short_result) (extract_audio_cmd example_request) 60 =
     Inr short_result
   \<and> subprocess_run (process_taking 2 short_result) (get_video_info_cmd example_request) 30 =
     Inr short_result
   \<and> returncode short_result = 0
   \<and> length (stdout_lines short_result) < 3
   \<and> length (stdout_lines short_result) < 4
   \<and> snd (extract_audio_try (process_taking 2 short_result) example_request) =
       Inl (HTTPException 400 ''Invalid output from yt-dlp'')
   \<and> isl (snd (extract_audio (process_taking 2 short_result) example_request))
   \<and> snd (get_video_info_try (process_taking 2 short_result) example_request) =
       Inl (HTTPException 400 ''Invalid output from yt-dlp'')
   \<and> isl (snd (get_video_info (process_taking 2 short_result) example_request))"
proof -
  have h1: "subprocess_run (process_taking 2 short_result) (extract_audio_cmd example_request) 60 =
              Inr short_result"
    by (simp add: process_taking_def)
  have h2: "subprocess_run (process_taking 2 short_result) (get_video_info_cmd example_request) 30 =
              Inr short_result"
    by (simp add: process_taking_def)
  have h3: "returncode short_result = 0"
    by (simp add: short_result_def)
  have h4: "length (stdout_lines short_result) < 3" "length (stdout_lines short_result) < 4"
    by (simp_all add: stdout_lines_short)
  show ?thesis
    using h1 h2 h3 h4
      invalid_output_on_zero_exit [of "process_taking 2 short_result" example_request short_result]
    by blast
qed

section \<open>The command lines\<close>

text \<open>
  Each handler reads of its runtime one answer of \<open>subprocess.run\<close>, the one for its own
  argument list and timeout, besides the text of exceptions and the digit limit.
\<close>

lemma extract_audio_run_only:
  assumes "subprocess_run rt' (extract_audio_cmd request) 60 =
             subprocess_run rt (extract_audio_cmd request) 60"
      and "http_exception_str rt' = http_exception_str rt"
      and "int_max_str_digits rt' = int_max_str_digits rt"
  shows "extract_audio rt' request = extract_audio rt request"
proof -
  have t: "extract_audio_try rt' request = extract_audio_try rt request"
    unfolding extract_audio_try_def assms ..
  have "exn_str rt' e = exn_str rt e" for e
    by (cases e) (simp_all add: assms)
  then have e: "exn_str rt' = exn_str rt"
    by (simp add: fun_eq_iff)
  show ?thesis
    unfolding extract_audio_def t e ..
qed

lemma get_video_info_run_only:
  assumes "subprocess_run rt' (get_video_info_cmd request) 30 =
             subprocess_run rt (get_video_info_cmd request) 30"
      and "http_exception_str rt' = http_exception_str rt"
  shows "get_video_info rt' request = get_video_info rt request"
proof -
  have t: "get_video_info_try rt' request = get_video_info_try rt request"
    unfolding get_video_info_try_def assms ..
  have "exn_str rt' e = exn_str rt e" for e
    by (cases e) (simp_all add: assms)
  then have e: "exn_str rt' = exn_str rt"
    by (simp add: fun_eq_iff)
  show ?thesis
    unfolding get_video_info_def t e ..
qed

text \<open>
  The outcome of each handler, as a function of the answer that \<open>subprocess.run\<close> gives
  for the handler's argument list and timeout.
\<close>

lemma extract_audio_outcome:
  "snd (extract_audio rt request) =
     (case subprocess_run rt (extract_audio_cmd request) 60 of
        Inl e \<Rightarrow>
          (case e of
             TimeoutExpired m \<Rightarrow>
               Inl (HTTPException 408 ''Request timed out. YouTube may be blocking the request.'')
           | _ \<Rightarrow> Inl (HTTPException 500 (''Internal server error: '' @ exn_str rt e)))
      | Inr result \<Rightarrow>
          if returncode result = 0 then
            if 3 \<le> length (stdout_lines result) then
              Inr \<lparr>success = True,
                   url = Some (str_strip (stdout_lines result ! 0)),
                   title = Some (str_strip (stdout_lines result ! 1)),
                   duration = py_int (int_max_str_digits rt) (str_strip (stdout_lines result ! 2)),
                   error = None\<rparr>
            else
              Inl (HTTPException 500
                    (''Internal server error: ''
                       @ http_exception_str rt 400 ''Invalid output from yt-dlp''))
          else
            Inl (HTTPException 500
                  (''Internal server error: ''
                     @ http_exception_str rt 400
                         (''YouTube extraction failed: '' @ stderr result))))"
proof (cases "subprocess_run rt (extract_audio_cmd request) 60")
  case (Inl e)
  from extract_audio_try_raises [OF this] Inl show ?thesis
    by (cases e) (simp_all add: extract_audio_except)
next
  case (Inr result)
  show ?thesis
  proof (cases "returncode result = 0")
    case False
    from extract_audio_try_nonzero [OF Inr this] Inr False show ?thesis
      by (simp add: extract_audio_except)
  next
    case True
    show ?thesis
    proof (cases "3 \<le> length (stdout_lines result)")
      case l: True
      from extract_audio_try_success [OF Inr True l] Inr True l show ?thesis
        by (simp add: extract_audio_except)
    next
      case False
      then have "length (stdout_lines result) < 3" by simp
      from extract_audio_try_short [OF Inr True this] Inr True False show ?thesis
        by (simp add: extract_audio_except)
    qed
  qed
qed

lemma get_video_info_outcome:
  "snd (get_video_info rt request) =
     (case subprocess_run rt (get_video_info_cmd request) 30 of
        Inl e \<Rightarrow> Inl (HTTPException 500 (''Internal server error: '' @ exn_str rt e))
      | Inr result \<Rightarrow>
          if returncode result = 0 then
            if 4 \<le> length (stdout_lines result) then
              Inr [(''success'', PyBool True),
                   (''title'', PyStr (str_strip (stdout_lines result ! 0))),
                   (''duration'', PyStr (str_strip (stdout_lines result ! 1))),
                   (''uploader'', PyStr (str_strip (stdout_lines result ! 2))),
                   (''view_count'', PyStr (str_strip (stdout_lines result ! 3)))]
            else
              Inl (HTTPException 500
                    (''Internal server error: ''
                       @ http_exception_str rt 400 ''Invalid output from yt-dlp''))
          else
            Inl (HTTPException 500
                  (''Internal server error: ''
                     @ http_exception_str rt 400
                         (''Failed to get video info: '' @ stderr result))))"
proof (cases "subprocess_run rt (get_video_info_cmd request) 30")
  case (Inl e)
  from get_video_info_try_raises [OF this] Inl show ?thesis
    by (simp add: get_video_info_except)
next
  case (Inr result)
  show ?thesis
  proof (cases "returncode result = 0")
    case False
    from get_video_info_try_nonzero [OF Inr this] Inr False show ?thesis
      by (simp add: get_video_info_except)
  next
    case True
    show ?thesis
    proof (cases "4 \<le> length (stdout_lines result)")
      case l: True
      from get_video_info_try_success [OF Inr True l] Inr True l show ?thesis
        by (simp add: get_video_info_except)
    next
      case False
      then have "length (stdout_lines result) < 4" by simp
      from get_video_info_try_short [OF Inr True this] Inr True False show ?thesis
        by (simp add: get_video_info_except)
    qed
  qed
qed

text \<open>
  Claim C8. For every request, \<open>/extract\<close> runs \<open>yt-dlp\<close> with \<open>--no-playlist\<close>, the
  flags for audio extraction to mp3 at quality 0, \<open>--format\<close> with the format of the
  request, \<open>--no-warnings\<close> and \<open>--quiet\<close>, \<open>--print\<close> for \<open>url\<close>, \<open>title\<close> and
  \<open>duration\<close> in this order, \<open>--user-agent\<close> with the fixed browser string, and the
  URL of the request as the last argument. \<open>/info\<close> runs it with the same
  \<open>--no-playlist\<close>, \<open>--no-warnings\<close>, \<open>--quiet\<close> and \<open>--user-agent\<close>, with \<open>--print\<close> for
  \<open>title\<close>, \<open>duration\<close>, \<open>uploader\<close> and \<open>view_count\<close>, with the URL last and with
  none of the extraction flags before it. Each handler runs its list, under the timeout
  of 60 or 30 seconds: its outcome is decided by the answer of \<open>subprocess.run\<close> for
  this list and timeout, and no other call's answer is used.
\<close>

theorem command_lists:
  "extract_audio_cmd request =
     [Some ''yt-dlp'', Some ''--no-playlist'', Some ''--extract-audio'',
      Some ''--audio-format'', Some ''mp3'', Some ''--audio-quality'', Some ''0'',
      Some ''--format'', format request, Some ''--no-warnings'', Some ''--quiet'',
      Some ''--print'', Some ''url'', Some ''--print'', Some ''title'',
      Some ''--print'', Some ''duration'',
      Some ''--user-agent'',
      Some ''Mozilla/5.0 (Windows NT 10.0; Win64; x64) AppleWebKit/537.36 (KHTML, like Gecko) Chrome/120.0.0.0 Safari/537.36'',
      Some (request_url request)]
   \<and> get_video_info_cmd request =
     [Some ''yt-dlp'', Some ''--no-playlist'', Some ''--no-warnings'', Some ''--quiet'',
      Some ''--print'', Some ''title'', Some ''--print'', Some ''duration'',
      Some ''--print'', Some ''uploader'', Some ''--print'', Some ''view_count'',
      Some ''--user-agent'',
      Some ''Mozilla/5.0 (Windows NT 10.0; Win64; x64) AppleWebKit/537.36 (KHTML, like Gecko) Chrome/120.0.0.0 Safari/537.36'',
      Some (request_url request)]
   \<and> last (extract_audio_cmd request) = Some (request_url request)
   \<and> last (get_video_info_cmd request) = Some (request_url request)
   \<and> set (butlast (get_video_info_cmd request))
         \<inter> {Some ''--extract-audio'', Some ''--audio-format'', Some ''--audio-quality'',
            Some ''--format''} = {}
   \<and> (subprocess_run rt' (extract_audio_cmd request) 60 =
         subprocess_run rt (extract_audio_cmd request) 60
       \<and> http_exception_str rt' = http_exception_str rt
       \<and> int_max_str_digits rt' = int_max_str_digits rt \<longrightarrow>
       extract_audio rt' request = extract_audio rt request)
   \<and> (subprocess_run rt' (get_video_info_cmd request) 30 =
         subprocess_run rt (get_video_info_cmd request) 30
       \<and> http_exception_str rt' = http_exception_str rt \<longrightarrow>
       get_video_info rt' request = get_video_info rt request)
   \<and> snd (extract_audio rt request) =
       (case subprocess_run rt (extract_audio_cmd request) 60 of
          Inl e \<Rightarrow>
            (case e of
               TimeoutExpired m \<Rightarrow>
                 Inl (HTTPException 408
                       ''Request timed out. YouTube may be blocking the request.'')
             | _ \<Rightarrow> Inl (HTTPException 500 (''Internal server error: '' @ exn_str rt e)))
        | Inr result \<Rightarrow>
            if returncode result = 0 then
              if 3 \<le> length (stdout_lines result) then
                Inr \<lparr>success = True,
                     url = Some (str_strip (stdout_lines result ! 0)),
                     title = Some (str_strip (stdout_lines result ! 1)),
                     duration =
                       py_int (int_max_str_digits rt) (str_strip (stdout_lines result ! 2)),
                     error = None\<rparr>
              else
                Inl (HTTPException 500
                      (''Internal server error: ''
                         @ http_exception_str rt 400 ''Invalid output from yt-dlp''))
            else
              Inl (HTTPException 500
                    (''Internal server error: ''
                       @ http_exception_str rt 400
                           (''YouTube extraction failed: '' @ stderr result))))
   \<and> snd (get_video_info rt request) =
       (case subprocess_run rt (get_video_info_cmd request) 30 of
          Inl e \<Rightarrow> Inl (HTTPException 500 (''Internal server error: '' @ exn_str rt e))
        | Inr result \<Rightarrow>
            if returncode result = 0 then
              if 4 \<le> length (stdout_lines result) then
                Inr [(''success'', PyBool True),
                     (''title'', PyStr (str_strip (stdout_lines result ! 0))),
                     (''duration'', PyStr (str_strip (stdout_lines result ! 1))),
                     (''uploader'', PyStr (str_strip (stdout_lines result ! 2))),
                     (''view_count'', PyStr (str_strip (stdout_lines result ! 3)))]
              else
                Inl (HTTPException 500
                      (''Internal server error: ''
                         @ http_exception_str rt 400 ''Invalid output from yt-dlp''))
            else
              Inl (HTTPException 500
                    (''Internal server error: ''
                       @ http_exception_str rt 400
                           (''Failed to get video info: '' @ stderr result))))"
proof (intro conjI impI)
  show "snd (extract_audio rt request) =
       (case subprocess_run rt (extract_audio_cmd request) 60 of
          Inl e \<Rightarrow>
            (case e of
               TimeoutExpired m \<Rightarrow>
                 Inl (HTTPException 408
                       ''Request timed out. YouTube may be blocking the request.'')
             | _ \<Rightarrow> Inl (HTTPException 500 (''Internal server error: '' @ exn_str rt e)))
        | Inr result \<Rightarrow>
            if returncode result = 0 then
              if 3 \<le> length (stdout_lines result) then
                Inr \<lparr>success = True,
                     url = Some (str_strip (stdout_lines result ! 0)),
                     title = Some (str_strip (stdout_lines result ! 1)),
                     duration =
                       py_int (int_max_str_digits rt) (str_strip (stdout_lines result ! 2)),
                     error = None\<rparr>
              else
                Inl (HTTPException 500
                      (''Internal server error: ''
                         @ http_exception_str rt 400 ''Invalid output from yt-dlp''))
            else
              Inl (HTTPException 500
                    (''Internal server error: ''
                       @ http_exception_str rt 400
                           (''YouTube extraction failed: '' @ stderr result))))"
    by (rule extract_audio_outcome)
next
  show "snd (get_video_info rt request) =
       (case subprocess_run rt (get_video_info_cmd request) 30 of
          Inl e \<Rightarrow> Inl (HTTPException 500 (''Internal server error: '' @ exn_str rt e))
        | Inr result \<Rightarrow>
            if returncode result = 0 then
              if 4 \<le> length (stdout_lines result) then
                Inr [(''success'', PyBool True),
                     (''title'', PyStr (str_strip (stdout_lines result ! 0))),
                     (''duration'', PyStr (str_strip (stdout_lines result ! 1))),
                     (''uploader'', PyStr (str_strip (stdout_lines result ! 2))),
                     (''view_count'', PyStr (str_strip (stdout_lines result ! 3)))]
              else
                Inl (HTTPException 500
                      (''Internal server error: ''
                         @ http_exception_str rt 400 ''Invalid output from yt-dlp''))
            else
              Inl (HTTPException 500
                    (''Internal server error: ''
                       @ http_exception_str rt 400
                           (''Failed to get video info: '' @ stderr result))))"
    by (rule get_video_info_outcome)
next
  show "set (butlast (get_video_info_cmd request))
         \<inter> {Some ''--extract-audio'', Some ''--audio-format'', Some ''--audio-quality'',
            Some ''--format''} = {}"
    by (simp add: get_video_info_cmd_def user_agent_def)
next
  assume "subprocess_run rt' (extract_audio_cmd request) 60 =
            subprocess_run rt (extract_audio_cmd request) 60
          \<and> http_exception_str rt' = http_exception_str rt
          \<and> int_max_str_digits rt' = int_max_str_digits rt"
  then show "extract_audio rt' request = extract_audio rt request"
    by (intro extract_audio_run_only) simp_all
next
  assume "subprocess_run rt' (get_video_info_cmd request) 30 =
            subprocess_run rt (get_video_info_cmd request) 30
          \<and> http_exception_str rt' = http_exception_str rt"
  then show "get_video_info rt' request = get_video_info rt request"
    by (intro get_video_info_run_only) simp_all
qed (simp_all add: extract_audio_cmd_def get_video_info_cmd_def user_agent_def)

theorem command_lists_witness:
  "subprocess_run (process_taking 3 song_result) (extract_audio_cmd example_request) 60 =
     subprocess_run (process_taking 2 song_result) (extract_audio_cmd example_request) 60
   \<and> subprocess_run (process_taking 3 song_result) (get_video_info_cmd example_request) 30 =
     subprocess_run (process_taking 2 song_result) (get_video_info_cmd example_request) 30
   \<and> subprocess_run (process_taking 3 song_result) \<noteq> subprocess_run (process_taking 2 song_result)
   \<and> http_exception_str (process_taking 3 song_result) =
     http_exception_str (process_taking 2 song_result)
   \<and> int_max_str_digits (process_taking 3 song_result) =
     int_max_str_digits (process_taking 2 song_result)
   \<and> extract_audio (process_taking 3 song_result) example_request =
     extract_audio (process_taking 2 song_result) example_request
   \<and> get_video_info (process_taking 3 song_result) example_request =
     get_video_info (process_taking 2 song_result) example_request
   \<and> extract_audio_cmd example_request ! 8 = Some ''bestaudio''
   \<and> last (extract_audio_cmd example_request) = Some ''https://www.youtube.com/watch?v=abc''
   \<and> subprocess_run (process_taking 2 song_result) (extract_audio_cmd example_request) 60 =
       Inr song_result
   \<and> snd (extract_audio (process_taking 2 song_result) example_request) =
       Inr \<lparr>success = True, url = Some ''http://media/1'', title = Some ''Song Title'',
            duration = Some 213, error = None\<rparr>
   \<and> subprocess_run (process_taking 2 song_result) (get_video_info_cmd example_request) 30 =
       Inr song_result
   \<and> snd (get_video_info (process_taking 2 song_result) example_request) =
       Inl (HTTPException 500 ''Internal server error: 400: Invalid output from yt-dlp'')"
proof -
  note t = command_lists [of example_request "process_taking 3 song_result"
        "process_taking 2 song_result"]
  have h1: "subprocess_run (process_taking 3 song_result) (extract_audio_cmd example_request) 60 =
     subprocess_run (process_taking 2 song_result) (extract_audio_cmd example_request) 60"
    by (simp add: process_taking_def)
  have h2: "subprocess_run (process_taking 3 song_result) (get_video_info_cmd example_request) 30 =
     subprocess_run (process_taking 2 song_result) (get_video_info_cmd example_request) 30"
    by (simp add: process_taking_def)
  have h3: "subprocess_run (process_taking 3 song_result) \<noteq>
              subprocess_run (process_taking 2 song_result)"
  proof
    assume "subprocess_run (process_taking 3 song_result) =
              subprocess_run (process_taking 2 song_result)"
    then have "subprocess_run (process_taking 3 song_result) [] 2 =
                 subprocess_run (process_taking 2 song_result) [] 2"
      by (rule arg_cong)
    then show False
      by (simp add: process_taking_def)
  qed
  have h4: "http_exception_str (process_taking 3 song_result) =
     http_exception_str (process_taking 2 song_result)"
    by (simp add: process_taking_def)
  have h5: "int_max_str_digits (process_taking 3 song_result) =
     int_max_str_digits (process_taking 2 song_result)"
    by (simp add: process_taking_def)
  have e: "extract_audio (process_taking 3 song_result) example_request =
             extract_audio (process_taking 2 song_result) example_request"
    by (rule t [THEN conjunct2, THEN conjunct2, THEN conjunct2, THEN conjunct2, THEN conjunct2,
                THEN conjunct1, THEN mp])
       (intro conjI h1 h4 h5)
  have i: "get_video_info (process_taking 3 song_result) example_request =
             get_video_info (process_taking 2 song_result) example_request"
    by (rule t [THEN conjunct2, THEN conjunct2, THEN conjunct2, THEN conjunct2, THEN conjunct2,
                THEN conjunct2, THEN conjunct1, THEN mp])
       (intro conjI h2 h4)
  have r60: "subprocess_run (process_taking 2 song_result) (extract_audio_cmd example_request) 60 =
               Inr song_result"
    by (simp add: process_taking_def)
  have r30: "subprocess_run (process_taking 2 song_result) (get_video_info_cmd example_request) 30 =
               Inr song_result"
    by (simp add: process_taking_def)
  have rc: "returncode song_result = 0"
    by (simp add: song_result_def)
  have s: "http_exception_str (process_taking 2 song_result) 400 d = ''400: '' @ d" for d
    by (simp add: process_taking_def starlette_str_def str_int_def)
  have o1: "snd (extract_audio (process_taking 2 song_result) example_request) =
       Inr \<lparr>success = True, url = Some ''http://media/1'', title = Some ''Song Title'',
            duration = Some 213, error = None\<rparr>"
    unfolding t [THEN conjunct2, THEN conjunct2, THEN conjunct2, THEN conjunct2, THEN conjunct2,
                 THEN conjunct2, THEN conjunct2, THEN conjunct1] r60
    by (simp add: rc stdout_lines_song str_strip_examples py_int_213)
  have o2: "snd (get_video_info (process_taking 2 song_result) example_request) =
       Inl (HTTPException 500 ''Internal server error: 400: Invalid output from yt-dlp'')"
    unfolding t [THEN conjunct2, THEN conjunct2, THEN conjunct2, THEN conjunct2, THEN conjunct2,
                 THEN conjunct2, THEN conjunct2, THEN conjunct2] r30
    by (simp add: rc stdout_lines_song s)
  have c1: "extract_audio_cmd example_request ! 8 = Some ''bestaudio''"
    unfolding t [THEN conjunct1] by (simp add: example_request_def)
  have c2: "last (extract_audio_cmd example_request) = Some ''https://www.youtube.com/watch?v=abc''"
    unfolding t [THEN conjunct2, THEN conjunct2, THEN conjunct1]
    by (simp add: example_request_def)
  show ?thesis
    by (intro conjI h1 h2 h3 h4 h5 e i c1 c2 r60 r30 o1 o2)
qed

text \<open>
  Claim C9. Two requests that differ in \<open>quality\<close> only give the same argument lists,
  and under the same runtime each handler logs the same records and ends in the same
  way for both: \<open>quality\<close> is never read.
\<close>

theorem quality_is_not_read:
  assumes "request_url request' = request_url request"
      and "format request' = format request"
  shows "extract_audio_cmd request' = extract_audio_cmd request
       \<and> get_video_info_cmd request' = get_video_info_cmd request
       \<and> extract_audio rt request' = extract_audio rt request
       \<and> get_video_info rt request' = get_video_info rt request"
proof -
  have c: "extract_audio_cmd request' = extract_audio_cmd request"
          "get_video_info_cmd request' = get_video_info_cmd request"
    by (simp_all add: extract_audio_cmd_def get_video_info_cmd_def assms)
  have "extract_audio_try rt request' = extract_audio_try rt request"
    unfolding extract_audio_try_def c assms ..
  then have e: "extract_audio rt request' = extract_audio rt request"
    by (simp add: extract_audio_def)
  have "get_video_info_try rt request' = get_video_info_try rt request"
    unfolding get_video_info_try_def c assms ..
  then have i: "get_video_info rt request' = get_video_info rt request"
    by (simp add: get_video_info_def)
  from c e i show ?thesis by simp
qed

theorem quality_is_not_read_witness:
  "request_url other_request = request_url example_request
   \<and> format other_request = format example_request
   \<and> quality other_request \<noteq> quality example_request
   \<and> extract_audio_cmd other_request = extract_audio_cmd example_request
   \<and> get_video_info_cmd other_request = get_video_info_cmd example_request
   \<and> extract_audio (process_taking 2 song_result) other_request =
       extract_audio (process_taking 2 song_result) example_request
   \<and> get_video_info (process_taking 2 song_result) other_request =
       get_video_info (process_taking 2 song_result) example_request"
proof -
  have h1: "request_url other_request = request_url example_request"
    by (simp add: other_request_def example_request_def)
  have h2: "format other_request = format example_request"
    by (simp add: other_request_def example_request_def)
  have h3: "quality other_request \<noteq> quality example_request"
    by (simp add: other_request_def example_request_def)
  note t = quality_is_not_read [OF h1 h2, of "process_taking 2 song_result"]
  show ?thesis
    by (intro conjI h1 h2 h3 t [THEN conjunct1] t [THEN conjunct2, THEN conjunct1]
          t [THEN conjunct2, THEN conjunct2, THEN conjunct1]
          t [THEN conjunct2, THEN conjunct2, THEN conjunct2])
qed

section \<open>Which part of the output a response depends on\<close>

text \<open>
  A handler that returns a response has run a process that exited with status zero and
  printed enough lines, and the response is built from the first lines of its output.
\<close>

lemma extract_audio_response:
  assumes "snd (extract_audio rt request) = Inr response"
  obtains result where
    "subprocess_run rt (extract_audio_cmd request) 60 = Inr result"
    "returncode result = 0"
    "3 \<le> length (stdout_lines result)"
    "response =
       \<lparr>success = True,
        url = Some (str_strip (stdout_lines result ! 0)),
        title = Some (str_strip (stdout_lines result ! 1)),
        duration = py_int (int_max_str_digits rt) (str_strip (stdout_lines result ! 2)),
        error = None\<rparr>"
proof (cases "subprocess_run rt (extract_audio_cmd request) 60")
  case (Inl e)
  from extract_audio_try_raises [OF this] assms show ?thesis
    by (simp add: extract_audio_except split: exn.splits)
next
  case (Inr result)
  show ?thesis
  proof (cases "returncode result = 0")
    case False
    from extract_audio_try_nonzero [OF Inr this] assms show ?thesis
      by (simp add: extract_audio_except)
  next
    case True
    show ?thesis
    proof (cases "length (stdout_lines result) < 3")
      case True
      from extract_audio_try_short [OF Inr \<open>returncode result = 0\<close> this] assms show ?thesis
        by (simp add: extract_audio_except)
    next
      case False
      then have l: "3 \<le> length (stdout_lines result)" by simp
      from extract_audio_try_success [OF Inr True l] assms
      have "response =
       \<lparr>success = True,
        url = Some (str_strip (stdout_lines result ! 0)),
        title = Some (str_strip (stdout_lines result ! 1)),
        duration = py_int (int_max_str_digits rt) (str_strip (stdout_lines result ! 2)),
        error = None\<rparr>"
        by (simp add: extract_audio_except)
      with Inr True l show ?thesis by (rule that)
    qed
  qed
qed

lemma get_video_info_response:
  assumes "snd (get_video_info rt request) = Inr response"
  obtains result where
    "subprocess_run rt (get_video_info_cmd request) 30 = Inr result"
    "returncode result = 0"
    "4 \<le> length (stdout_lines result)"
    "response =
       [(''success'', PyBool True),
        (''title'', PyStr (str_strip (stdout_lines result ! 0))),
        (''duration'', PyStr (str_strip (stdout_lines result ! 1))),
        (''uploader'', PyStr (str_strip (stdout_lines result ! 2))),
        (''view_count'', PyStr (str_strip (stdout_lines result ! 3)))]"
proof (cases "subprocess_run rt (get_video_info_cmd request) 30")
  case (Inl e)
  from get_video_info_try_raises [OF this] assms show ?thesis
    by (simp add: get_video_info_except)
next
  case (Inr result)
  show ?thesis
  proof (cases "returncode result = 0")
    case False
    from get_video_info_try_nonzero [OF Inr this] assms show ?thesis
      by (simp add: get_video_info_except)
  next
    case True
    show ?thesis
    proof (cases "length (stdout_lines result) < 4")
      case True
      from get_video_info_try_short [OF Inr \<open>returncode result = 0\<close> this] assms show ?thesis
        by (simp add: get_video_info_except)
    next
      case False
      then have l: "4 \<le> length (stdout_lines result)" by simp
      from get_video_info_try_success [OF Inr True l] assms
      have "response =
       [(''success'', PyBool True),
        (''title'', PyStr (str_strip (stdout_lines result ! 0))),
        (''duration'', PyStr (str_strip (stdout_lines result ! 1))),
        (''uploader'', PyStr (str_strip (stdout_lines result ! 2))),
        (''view_count'', PyStr (str_strip (stdout_lines result ! 3)))]"
        by (simp add: get_video_info_except)
      with Inr True l show ?thesis by (rule that)
    qed
  qed
qed

lemma extract_audio_returns:
  "snd (extract_audio_try rt request) = Inr response \<Longrightarrow>
   extract_audio rt request = extract_audio_try rt request"
  by (cases "extract_audio_try rt request") (simp add: extract_audio_def)

lemma get_video_info_returns:
  "snd (get_video_info_try rt request) = Inr response \<Longrightarrow>
   get_video_info rt request = get_video_info_try rt request"
  by (cases "get_video_info_try rt request") (simp add: get_video_info_def)

lemma take_nth_eq:
  assumes "take n xs = take n ys" and "i < n"
  shows "xs ! i = ys ! i"
proof -
  have "xs ! i = take n xs ! i" using assms(2) by simp
  also have "\<dots> = take n ys ! i" by (simp add: assms(1))
  also have "\<dots> = ys ! i" using assms(2) by simp
  finally show ?thesis .
qed

lemma extract_audio_first_three:
  assumes "subprocess_run rt (extract_audio_cmd request) 60 = Inr result"
      and "subprocess_run rt' (extract_audio_cmd request) 60 = Inr result'"
      and "int_max_str_digits rt' = int_max_str_digits rt"
      and "returncode result = 0" and "returncode result' = 0"
      and "3 \<le> length (stdout_lines result)" and "3 \<le> length (stdout_lines result')"
      and "take 3 (stdout_lines result') = take 3 (stdout_lines result)"
  shows "extract_audio rt' request = extract_audio rt request"
proof -
  have n: "stdout_lines result' ! 0 = stdout_lines result ! 0"
          "stdout_lines result' ! 1 = stdout_lines result ! 1"
          "stdout_lines result' ! 2 = stdout_lines result ! 2"
    by (rule take_nth_eq [OF assms(8)]; simp)+
  have "extract_audio_try rt' request = extract_audio_try rt request"
    using assms(4-7)
    by (simp add: extract_audio_try_def assms(1-3) n n(2) [unfolded One_nat_def] Let_def)
  moreover have "extract_audio rt request = extract_audio_try rt request"
    using extract_audio_try_success [OF assms(1) assms(4) assms(6)]
    by (rule extract_audio_returns)
  moreover have "extract_audio rt' request = extract_audio_try rt' request"
    using extract_audio_try_success [OF assms(2) assms(5) assms(7)]
    by (rule extract_audio_returns)
  ultimately show ?thesis by simp
qed

lemma get_video_info_first_four:
  assumes "subprocess_run rt (get_video_info_cmd request) 30 = Inr result"
      and "subprocess_run rt' (get_video_info_cmd request) 30 = Inr result'"
      and "returncode result = 0" and "returncode result' = 0"
      and "4 \<le> length (stdout_lines result)" and "4 \<le> length (stdout_lines result')"
      and "take 4 (stdout_lines result') = take 4 (stdout_lines result)"
  shows "get_video_info rt' request = get_video_info rt request"
proof -
  have n: "stdout_lines result' ! 0 = stdout_lines result ! 0"
          "stdout_lines result' ! 1 = stdout_lines result ! 1"
          "stdout_lines result' ! 2 = stdout_lines result ! 2"
          "stdout_lines result' ! 3 = stdout_lines result ! 3"
    by (rule take_nth_eq [OF assms(7)]; simp)+
  have "get_video_info_try rt' request = get_video_info_try rt request"
    using assms(3-6)
    by (simp add: get_video_info_try_def assms(1-2) n n(2) [unfolded One_nat_def] Let_def)
  moreover have "get_video_info rt request = get_video_info_try rt request"
    using get_video_info_try_success [OF assms(1) assms(3) assms(5)]
    by (rule get_video_info_returns)
  moreover have "get_video_info rt' request = get_video_info_try rt' request"
    using get_video_info_try_success [OF assms(2) assms(4) assms(6)]
    by (rule get_video_info_returns)
  ultimately show ?thesis by simp
qed

lemma stdout_lines_padded:
  "stdout_lines padded_result = [''http://media/1 '', '' Song Title'' @ [CHR 0x09], '' 213'']"
  by (simp add: string_defs padded_result_def)

lemma stdout_lines_padded_info:
  "stdout_lines padded_info_result =
     [''Song Title '', '' 213'' @ [CHR 0x09], ''Some Channel '', '' 1000'']"
  by (simp add: string_defs padded_info_result_def)

lemma stdout_lines_extra:
  "stdout_lines extra_result = [''http://media/1'', ''Song Title'', ''213'', ''one more line'']"
  by (simp add: string_defs extra_result_def)

lemma stdout_lines_longer:
  "stdout_lines longer_result =
     [''Song Title'', ''213'', ''Some Channel'', ''1000'', ''one more line'']"
  by (simp add: string_defs longer_result_def)

lemma padded_fields:
  "str_strip (stdout_lines padded_result ! 0) = ''http://media/1''"
  "str_strip (stdout_lines padded_result ! Suc 0) = ''Song Title''"
  "str_strip (stdout_lines padded_result ! 2) = ''213''"
  by (simp_all add: string_defs padded_result_def)

lemma padded_info_fields:
  "str_strip (stdout_lines padded_info_result ! 0) = ''Song Title''"
  "str_strip (stdout_lines padded_info_result ! Suc 0) = ''213''"
  "str_strip (stdout_lines padded_info_result ! 2) = ''Some Channel''"
  "str_strip (stdout_lines padded_info_result ! 3) = ''1000''"
  by (simp_all add: string_defs padded_info_result_def)

text \<open>
  Claim C10. When a handler returns a response, each string in it is the line of the
  stripped output at its position, with the whitespace around it removed: the first two
  lines for \<open>url\<close> and \<open>title\<close> in \<open>/extract\<close>, whose \<open>duration\<close> is read from the third,
  and the first four lines in \<open>/info\<close>. Two runs whose outputs agree on the first three
  lines (\<open>/extract\<close>) or the first four (\<open>/info\<close>) log the same records and return the
  same response, whatever lines follow and whatever the process wrote to its error
  output.
\<close>

theorem response_from_first_lines:
  "(subprocess_run rt (extract_audio_cmd request) 60 = Inr result
      \<and> snd (extract_audio rt request) = Inr response \<longrightarrow>
    response =
      \<lparr>success = True,
       url = Some (str_strip (stdout_lines result ! 0)),
       title = Some (str_strip (stdout_lines result ! 1)),
       duration = py_int (int_max_str_digits rt) (str_strip (stdout_lines result ! 2)),
       error = None\<rparr>)
   \<and> (subprocess_run rt (get_video_info_cmd request) 30 = Inr result
      \<and> snd (get_video_info rt request) = Inr info \<longrightarrow>
    info =
      [(''success'', PyBool True),
       (''title'', PyStr (str_strip (stdout_lines result ! 0))),
       (''duration'', PyStr (str_strip (stdout_lines result ! 1))),
       (''uploader'', PyStr (str_strip (stdout_lines result ! 2))),
       (''view_count'', PyStr (str_strip (stdout_lines result ! 3)))])
   \<and> (subprocess_run rt (extract_audio_cmd request) 60 = Inr result
      \<and> subprocess_run rt' (extract_audio_cmd request) 60 = Inr result'
      \<and> int_max_str_digits rt' = int_max_str_digits rt
      \<and> returncode result = 0 \<and> returncode result' = 0
      \<and> 3 \<le> length (stdout_lines result) \<and> 3 \<le> length (stdout_lines result')
      \<and> take 3 (stdout_lines result') = take 3 (stdout_lines result) \<longrightarrow>
    extract_audio rt' request = extract_audio rt request)
   \<and> (subprocess_run rt (get_video_info_cmd request) 30 = Inr result
      \<and> subprocess_run rt' (get_video_info_cmd request) 30 = Inr result'
      \<and> returncode result = 0 \<and> returncode result' = 0
      \<and> 4 \<le> length (stdout_lines result) \<and> 4 \<le> length (stdout_lines result')
      \<and> take 4 (stdout_lines result') = take 4 (stdout_lines result) \<longrightarrow>
    get_video_info rt' request = get_video_info rt request)"
proof (intro conjI impI)
  assume a: "subprocess_run rt (extract_audio_cmd request) 60 = Inr result
      \<and> snd (extract_audio rt request) = Inr response"
  then have "snd (extract_audio rt request) = Inr response" ..
  then obtain r where "subprocess_run rt (extract_audio_cmd request) 60 = Inr r"
    and "response =
      \<lparr>success = True,
       url = Some (str_strip (stdout_lines r ! 0)),
       title = Some (str_strip (stdout_lines r ! 1)),
       duration = py_int (int_max_str_digits rt) (str_strip (stdout_lines r ! 2)),
       error = None\<rparr>"
    by (rule extract_audio_response)
  with a show "response =
      \<lparr>success = True,
       url = Some (str_strip (stdout_lines result ! 0)),
       title = Some (str_strip (stdout_lines result ! 1)),
       duration = py_int (int_max_str_digits rt) (str_strip (stdout_lines result ! 2)),
       error = None\<rparr>"
    by simp
next
  assume a: "subprocess_run rt (get_video_info_cmd request) 30 = Inr result
      \<and> snd (get_video_info rt request) = Inr info"
  then have "snd (get_video_info rt request) = Inr info" ..
  then obtain r where "subprocess_run rt (get_video_info_cmd request) 30 = Inr r"
    and "info =
      [(''success'', PyBool True),
       (''title'', PyStr (str_strip (stdout_lines r ! 0))),
       (''duration'', PyStr (str_strip (stdout_lines r ! 1))),
       (''uploader'', PyStr (str_strip (stdout_lines r ! 2))),
       (''view_count'', PyStr (str_strip (stdout_lines r ! 3)))]"
    by (rule get_video_info_response)
  with a show "info =
      [(''success'', PyBool True),
       (''title'', PyStr (str_strip (stdout_lines result ! 0))),
       (''duration'', PyStr (str_strip (stdout_lines result ! 1))),
       (''uploader'', PyStr (str_strip (stdout_lines result ! 2))),
       (''view_count'', PyStr (str_strip (stdout_lines result ! 3)))]"
    by simp
next
  assume "subprocess_run rt (extract_audio_cmd request) 60 = Inr result
      \<and> subprocess_run rt' (extract_audio_cmd request) 60 = Inr result'
      \<and> int_max_str_digits rt' = int_max_str_digits rt
      \<and> returncode result = 0 \<and> returncode result' = 0
      \<and> 3 \<le> length (stdout_lines result) \<and> 3 \<le> length (stdout_lines result')
      \<and> take 3 (stdout_lines result') = take 3 (stdout_lines result)"
  then show "extract_audio rt' request = extract_audio rt request"
    by (intro extract_audio_first_three [of rt request result rt' result']) simp_all
next
  assume "subprocess_run rt (get_video_info_cmd request) 30 = Inr result
      \<and> subprocess_run rt' (get_video_info_cmd request) 30 = Inr result'
      \<and> returncode result = 0 \<and> returncode result' = 0
      \<and> 4 \<le> length (stdout_lines result) \<and> 4 \<le> length (stdout_lines result')
      \<and> take 4 (stdout_lines result') = take 4 (stdout_lines result)"
  then show "get_video_info rt' request = get_video_info rt request"
    by (intro get_video_info_first_four [of rt request result rt' result']) simp_all
qed

theorem response_from_first_lines_witness:
  "subprocess_run (process_taking 2 padded_result) (extract_audio_cmd example_request) 60 =
     Inr padded_result
   \<and> snd (extract_audio (process_taking 2 padded_result) example_request) =
       Inr \<lparr>success = True, url = Some ''http://media/1'', title = Some ''Song Title'',
            duration = Some 213, error = None\<rparr>
   \<and> \<lparr>success = True, url = Some ''http://media/1'', title = Some ''Song Title'',
        duration = Some 213, error = None\<rparr> =
       \<lparr>success = True,
        url = Some (str_strip (stdout_lines padded_result ! 0)),
        title = Some (str_strip (stdout_lines padded_result ! 1)),
        duration = py_int (int_max_str_digits (process_taking 2 padded_result))
                     (str_strip (stdout_lines padded_result ! 2)),
        error = None\<rparr>
   \<and> subprocess_run (process_taking 2 padded_info_result) (get_video_info_cmd example_request) 30 =
     Inr padded_info_result
   \<and> snd (get_video_info (process_taking 2 padded_info_result) example_request) =
       Inr [(''success'', PyBool True), (''title'', PyStr ''Song Title''),
            (''duration'', PyStr ''213''), (''uploader'', PyStr ''Some Channel''),
            (''view_count'', PyStr ''1000'')]
   \<and> [(''success'', PyBool True), (''title'', PyStr ''Song Title''),
        (''duration'', PyStr ''213''), (''uploader'', PyStr ''Some Channel''),
        (''view_count'', PyStr ''1000'')] =
       [(''success'', PyBool True),
        (''title'', PyStr (str_strip (stdout_lines padded_info_result ! 0))),
        (''duration'', PyStr (str_strip (stdout_lines padded_info_result ! 1))),
        (''uploader'', PyStr (str_strip (stdout_lines padded_info_result ! 2))),
        (''view_count'', PyStr (str_strip (stdout_lines padded_info_result ! 3)))]
   \<and> subprocess_run (process_taking 2 song_result) (extract_audio_cmd example_request) 60 =
     Inr song_result
   \<and> subprocess_run (process_taking 2 extra_result) (extract_audio_cmd example_request) 60 =
     Inr extra_result
   \<and> int_max_str_digits (process_taking 2 extra_result) =
     int_max_str_digits (process_taking 2 song_result)
   \<and> returncode song_result = 0 \<and> returncode extra_result = 0
   \<and> 3 \<le> length (stdout_lines song_result) \<and> 3 \<le> length (stdout_lines extra_result)
   \<and> take 3 (stdout_lines extra_result) = take 3 (stdout_lines song_result)
   \<and> stdout_lines extra_result \<noteq> stdout_lines song_result
   \<and> extract_audio (process_taking 2 extra_result) example_request =
     extract_audio (process_taking 2 song_result) example_request
   \<and> subprocess_run (process_taking 2 info_result) (get_video_info_cmd example_request) 30 =
     Inr info_result
   \<and> subprocess_run (process_taking 2 longer_result) (get_video_info_cmd example_request) 30 =
     Inr longer_result
   \<and> returncode info_result = 0 \<and> returncode longer_result = 0
   \<and> 4 \<le> length (stdout_lines info_result) \<and> 4 \<le> length (stdout_lines longer_result)
   \<and> take 4 (stdout_lines longer_result) = take 4 (stdout_lines info_result)
   \<and> stdout_lines longer_result \<noteq> stdout_lines info_result
   \<and> get_video_info (process_taking 2 longer_result) example_request =
     get_video_info (process_taking 2 info_result) example_request"
proof -
  have run60: "subprocess_run (process_taking 2 r) cmd 60 = Inr r"
   and run30: "subprocess_run (process_taking 2 r) cmd 30 = Inr r"
   and lim: "int_max_str_digits (process_taking 2 r) = 4300" for r cmd
    by (simp_all add: process_taking_def)
  have rc: "returncode padded_result = 0" "returncode padded_info_result = 0"
           "returncode song_result = 0" "returncode extra_result = 0"
           "returncode info_result = 0" "returncode longer_result = 0"
    by (simp_all add: padded_result_def padded_info_result_def song_result_def
          extra_result_def info_result_def longer_result_def)
  have len: "3 \<le> length (stdout_lines padded_result)"
            "4 \<le> length (stdout_lines padded_info_result)"
            "3 \<le> length (stdout_lines song_result)" "3 \<le> length (stdout_lines extra_result)"
            "4 \<le> length (stdout_lines info_result)" "4 \<le> length (stdout_lines longer_result)"
    by (simp_all add: stdout_lines_padded stdout_lines_padded_info stdout_lines_song
          stdout_lines_extra stdout_lines_info stdout_lines_longer)
  have tk: "take 3 (stdout_lines extra_result) = take 3 (stdout_lines song_result)"
           "take 4 (stdout_lines longer_result) = take 4 (stdout_lines info_result)"
    by (simp_all add: stdout_lines_song stdout_lines_extra stdout_lines_info stdout_lines_longer)
  have ne: "stdout_lines extra_result \<noteq> stdout_lines song_result"
           "stdout_lines longer_result \<noteq> stdout_lines info_result"
    by (simp_all add: stdout_lines_song stdout_lines_extra stdout_lines_info stdout_lines_longer)
  have pe: "snd (extract_audio (process_taking 2 padded_result) example_request) =
       Inr \<lparr>success = True, url = Some ''http://media/1'', title = Some ''Song Title'',
            duration = Some 213, error = None\<rparr>"
    using extract_audio_try_success [OF run60 rc(1) len(1), of example_request]
    by (simp add: extract_audio_except padded_fields py_int_213)
  have pi: "snd (get_video_info (process_taking 2 padded_info_result) example_request) =
       Inr [(''success'', PyBool True), (''title'', PyStr ''Song Title''),
            (''duration'', PyStr ''213''), (''uploader'', PyStr ''Some Channel''),
            (''view_count'', PyStr ''1000'')]"
    using get_video_info_try_success [OF run30 rc(2) len(2), of example_request]
    by (simp add: get_video_info_except padded_info_fields)
  note t1 = response_from_first_lines
              [of "process_taking 2 padded_result" example_request padded_result
                  "\<lparr>success = True, url = Some ''http://media/1'', title = Some ''Song Title'',
                    duration = Some 213, error = None\<rparr>",
               THEN conjunct1, THEN mp, OF conjI, OF run60 pe]
  note t2 = response_from_first_lines
              [of "process_taking 2 padded_info_result" example_request padded_info_result _
                  "[(''success'', PyBool True), (''title'', PyStr ''Song Title''),
                    (''duration'', PyStr ''213''), (''uploader'', PyStr ''Some Channel''),
                    (''view_count'', PyStr ''1000'')]",
               THEN conjunct2, THEN conjunct1, THEN mp, OF conjI, OF run30 pi]
  have t3: "extract_audio (process_taking 2 extra_result) example_request =
              extract_audio (process_taking 2 song_result) example_request"
    by (rule response_from_first_lines
              [of "process_taking 2 song_result" example_request song_result _ _
                  "process_taking 2 extra_result" extra_result,
               THEN conjunct2, THEN conjunct2, THEN conjunct1, THEN mp])
       (intro conjI run60 rc len tk, simp add: lim)
  have t4: "get_video_info (process_taking 2 longer_result) example_request =
              get_video_info (process_taking 2 info_result) example_request"
    by (rule response_from_first_lines
              [of "process_taking 2 info_result" example_request info_result _ _
                  "process_taking 2 longer_result" longer_result,
               THEN conjunct2, THEN conjunct2, THEN conjunct2, THEN mp])
       (intro conjI run30 rc len tk)
  have l: "int_max_str_digits (process_taking 2 extra_result) =
             int_max_str_digits (process_taking 2 song_result)"
    by (simp add: lim)
  show ?thesis
    by (intro conjI run60 run30 rc len tk ne pe pi t1 t2 t3 t4 l)
qed

end
